theory Spec2Isabelle
  imports Complex_Main
begin

section \<open>Values of the Python program\<close>

text \<open>
  The program is one script, \<^verbatim>\<open>main.py\<close>: a station resolver
  (\<^verbatim>\<open>convert_station_str_to_station\<close>), the renderer (\<^verbatim>\<open>draw\<close>) and the
  command-line block that lists the journeys and reads the user's choice.
  Exceptions, \<^verbatim>\<open>sys.exit\<close> and terminal traffic are values of the model.
\<close>

datatype exn = ValueError | IndexError

text \<open>How a piece of the script ends: it returns, it calls \<^verbatim>\<open>sys.exit(n)\<close>, or an
  exception leaves it uncaught.\<close>

datatype 'a result = Return 'a | Exit nat | Raise exn

text \<open>Terminal traffic in program order: a \<^verbatim>\<open>print\<close>ed line, or an \<^verbatim>\<open>input\<close> call
  with its prompt.\<close>

datatype io = Print string | Input string

text \<open>What \<^verbatim>\<open>int(input(...))\<close> makes of the line the user types: \<^verbatim>\<open>int\<close> raises
  ValueError on text that is no integer literal, and yields the integer otherwise.\<close>

datatype typed = NotAnInteger | Integer int

text \<open>Python's \<^verbatim>\<open>xs[i]\<close>: a negative index counts from the end, and an index outside
  \<^verbatim>\<open>-len(xs) .. len(xs)-1\<close> raises IndexError.\<close>

definition getitem :: "'a list \<Rightarrow> int \<Rightarrow> exn + 'a" where
  "getitem xs i =
     (if 0 \<le> i \<and> i < int (length xs) then Inr (xs ! nat i)
      else if - int (length xs) \<le> i \<and> i < 0 then Inr (xs ! nat (int (length xs) + i))
      else Inl IndexError)"

subsection \<open>Numbers and times as text\<close>

definition digit :: "nat \<Rightarrow> char" where
  "digit d = ''0123456789'' ! (d mod 10)"

text \<open>\<^verbatim>\<open>str(n)\<close> of a natural number, as an f-string field prints it.\<close>

fun str_nat :: "nat \<Rightarrow> string" where
  "str_nat n = (if n < 10 then [digit n] else str_nat (n div 10) @ [digit n])"

declare str_nat.simps [simp del]

definition str_int :: "int \<Rightarrow> string" where
  "str_int i = (if i < 0 then CHR ''-'' # str_nat (nat (- i)) else str_nat (nat i))"

text \<open>\<^verbatim>\<open>%02d\<close>, \<^verbatim>\<open>%04d\<close> and \<^verbatim>\<open>%06d\<close> on numbers that fit the width.\<close>

definition pad2 :: "nat \<Rightarrow> string" where
  "pad2 n = [digit (n div 10), digit n]"

definition pad4 :: "nat \<Rightarrow> string" where
  "pad4 n = pad2 (n div 100) @ pad2 n"

definition pad6 :: "nat \<Rightarrow> string" where
  "pad6 n = pad2 (n div 10000) @ pad4 n"

record datetime =
  year :: nat
  month :: nat
  day :: nat
  hour :: nat
  minute :: nat
  second :: nat

text \<open>\<^verbatim>\<open>dt.strftime('%H:%M %d.%m.%Y')\<close>, the one format the script uses. CPython hands
  \<^verbatim>\<open>%Y\<close> to the C library, which prints the year in decimal and (glibc) does not pad
  it; from the year 1000 on that is four digits everywhere.\<close>

definition strftime :: "datetime \<Rightarrow> string" where
  "strftime dt =
     pad2 (hour dt) @ '':'' @ pad2 (minute dt) @ '' '' @
     pad2 (day dt) @ ''.'' @ pad2 (month dt) @ ''.'' @ str_nat (year dt)"

record timedelta =
  days :: int
  seconds :: nat
  microseconds :: nat

text \<open>\<^verbatim>\<open>str(td)\<close> of a \<^verbatim>\<open>datetime.timedelta\<close>: \<^verbatim>\<open>H:MM:SS\<close>, the days in front when
  there are any, the microseconds behind when there are any.\<close>

definition str_timedelta :: "timedelta \<Rightarrow> string" where
  "str_timedelta td =
     (let mm = seconds td div 60; ss = seconds td mod 60;
          hh = mm div 60; mm = mm mod 60;
          s = str_nat hh @ '':'' @ pad2 mm @ '':'' @ pad2 ss;
          s = (if days td \<noteq> 0
               then str_int (days td) @ '' day'' @ (if \<bar>days td\<bar> \<noteq> 1 then ''s'' else '''') @ '', '' @ s
               else s)
      in if microseconds td \<noteq> 0 then s @ ''.'' @ pad6 (microseconds td) else s)"

text \<open>\<^verbatim>\<open>sep.join(xs)\<close>.\<close>

fun join :: "string \<Rightarrow> string list \<Rightarrow> string" where
  "join sep [] = []"
| "join sep [x] = x"
| "join sep (x # y # ys) = x @ sep @ join sep (y # ys)"

section \<open>The journey data\<close>

text \<open>The objects of \<^verbatim>\<open>pyhafas.types.fptf\<close> with the attributes the script reads.
  Coordinates are floats that the script only copies, never computes with. The stopovers
  of a leg are a list, possibly empty; a leg for which the provider gives \<^verbatim>\<open>None\<close> in
  its place is not modelled.\<close>

record station =
  station_id :: string
  name :: string
  latitude :: real
  longitude :: real

record stopover =
  stop :: station
  arrival :: "datetime option"
  departure :: "datetime option"

record leg =
  origin :: station
  destination :: station
  departure :: datetime
  arrival :: datetime
  stopovers :: "stopover list"

record journey =
  legs :: "leg list"
  duration :: timedelta

section \<open>The map\<close>

type_synonym point = "real \<times> real"

text \<open>What the script adds to the folium map, in the order of the \<^verbatim>\<open>add_to\<close> calls,
  each element with the arguments of its constructor call.\<close>

datatype element =
    LocateControl
  | MeasureControl
  | Circle (radius: nat) (circle_location: point) (popup: string) (color: string) (fill: bool)
  | PolyLine (line_locations: "point list") (color: string)

record folium_map =
  location :: point
  zoom_start :: nat
  children :: "element list"

fun is_circle :: "element \<Rightarrow> bool" where
  "is_circle (Circle r l p c f) = True"
| "is_circle _ = False"

fun is_polyline :: "element \<Rightarrow> bool" where
  "is_polyline (PolyLine ps c) = True"
| "is_polyline _ = False"

definition circles :: "folium_map \<Rightarrow> element list" where
  "circles m = filter is_circle (children m)"

definition polylines :: "folium_map \<Rightarrow> element list" where
  "polylines m = filter is_polyline (children m)"

text \<open>\<^verbatim>\<open>folium.PolyLine(locations, color=c)\<close>: the constructor validates its locations and
  raises \<^verbatim>\<open>ValueError('Locations is empty.')\<close> on an empty list; a list of one point
  or more makes the polyline.\<close>

definition folium_PolyLine :: "point list \<Rightarrow> string \<Rightarrow> exn + element" where
  "folium_PolyLine ps c = (if ps = [] then Inl ValueError else Inr (PolyLine ps c))"

section \<open>\<^verbatim>\<open>draw\<close>\<close>

text \<open>
  The renderer runs on a state: the caller's journey object, the map under construction
  and the two locals the loops update. Each statement is a state update, so that what
  the function writes and what it only reads can both be stated, also for a run that
  ends in an exception.
\<close>

record draw_state =
  journey :: journey
  the_map :: folium_map
  transfer_count :: nat
  route_line_points :: "point list"

definition palette :: "string list" where
  "palette = [''Red'', ''Blue'', ''Green'', ''Black'', ''White'']"

definition add_to :: "element \<Rightarrow> draw_state \<Rightarrow> draw_state" where
  "add_to e s = s\<lparr>the_map := (the_map s)\<lparr>children := children (the_map s) @ [e]\<rparr>\<rparr>"

definition append_point :: "point \<Rightarrow> draw_state \<Rightarrow> draw_state" where
  "append_point p s = s\<lparr>route_line_points := route_line_points s @ [p]\<rparr>"

text \<open>The popup of a stopover's marker: the conditional expression of the f-string,
  \<^verbatim>\<open>A if departure is not None else B if arrival is not None else 'unknown'\<close>.\<close>

definition stopover_popup :: "stopover \<Rightarrow> string" where
  "stopover_popup so =
     name (stop so) @ '' - '' @
     (case stopover.departure so of
        Some d \<Rightarrow> strftime d
      | None \<Rightarrow> (case stopover.arrival so of Some a \<Rightarrow> strftime a | None \<Rightarrow> ''unknown''))"

text \<open>The body of \<^verbatim>\<open>for stopover in leg.stopovers\<close>.\<close>

definition stopover_body :: "stopover \<Rightarrow> draw_state \<Rightarrow> draw_state" where
  "stopover_body so s =
     (let st = stop so;
          s = append_point (latitude st, longitude st) s
      in add_to (Circle 1000 (latitude st, longitude st) (stopover_popup so) ''crimson'' True) s)"

text \<open>The \<^verbatim>\<open>else\<close> branch: the leg's origin and destination only.\<close>

definition transfer_body :: "leg \<Rightarrow> draw_state \<Rightarrow> draw_state" where
  "transfer_body lg s =
     (let s = append_point (latitude (origin lg), longitude (origin lg)) s;
          s = add_to (Circle 1000 (latitude (origin lg), longitude (origin lg))
                (name (origin lg) @ '' - '' @ strftime (leg.departure lg)) ''crimson'' True) s;
          s = append_point (latitude (destination lg), longitude (destination lg)) s
      in add_to (Circle 1000 (latitude (destination lg), longitude (destination lg))
                (name (destination lg) @ '' - '' @ strftime (leg.arrival lg)) ''crimson'' True) s)"

text \<open>The body of \<^verbatim>\<open>for leg in journey.legs\<close>: the state it leaves, and the exception
  when the polyline's constructor raises. In that case the leg's markers are on the map
  already, the polyline is not, and the counter is not incremented.\<close>

definition leg_body :: "bool \<Rightarrow> leg \<Rightarrow> draw_state \<Rightarrow> draw_state \<times> exn option" where
  "leg_body only_transfer_stations lg s =
     (let s = s\<lparr>route_line_points := []\<rparr>;
          s = (if only_transfer_stations = False
               then fold stopover_body (stopovers lg) s
               else transfer_body lg s)
      in case folium_PolyLine (route_line_points s) (palette ! (transfer_count s mod 5)) of
           Inl e \<Rightarrow> (s, Some e)
         | Inr line \<Rightarrow>
             (let s = add_to line s in (s\<lparr>transfer_count := transfer_count s + 1\<rparr>, None)))"

text \<open>The loop over the legs: it stops at the first leg whose body raises.\<close>

fun run_legs :: "bool \<Rightarrow> leg list \<Rightarrow> draw_state \<Rightarrow> draw_state \<times> exn option" where
  "run_legs only_transfer_stations [] s = (s, None)"
| "run_legs only_transfer_stations (lg # lgs) s =
     (case leg_body only_transfer_stations lg s of
        (s', Some e) \<Rightarrow> (s', Some e)
      | (s', None) \<Rightarrow> run_legs only_transfer_stations lgs s')"

text \<open>The function up to its end. \<^verbatim>\<open>journey.legs[0]\<close> in the first statement raises
  IndexError on a journey without legs, before there is a map. Otherwise the result is
  the state in which the function ends and the exception that ended it, if one did.\<close>

definition draw_run :: "journey \<Rightarrow> bool \<Rightarrow> exn + draw_state \<times> exn option" where
  "draw_run j only_transfer_stations =
     (case getitem (legs j) 0 of
        Inl e \<Rightarrow> Inl e
      | Inr l0 \<Rightarrow>
          (let s = \<lparr>journey = j,
                    the_map = \<lparr>location = (latitude (origin l0), longitude (origin l0)),
                               zoom_start = 8,
                               children = [LocateControl, MeasureControl]\<rparr>,
                    transfer_count = 0,
                    route_line_points = []\<rparr>
           in Inr (run_legs only_transfer_stations (legs (journey s)) s)))"

text \<open>What the caller of \<^verbatim>\<open>draw\<close> gets: the map, or the exception.\<close>

definition draw :: "journey \<Rightarrow> bool \<Rightarrow> exn + folium_map" where
  "draw j only_transfer_stations =
     (case draw_run j only_transfer_stations of
        Inl e \<Rightarrow> Inl e
      | Inr (s, Some e) \<Rightarrow> Inl e
      | Inr (s, None) \<Rightarrow> Inr (the_map s))"

subsection \<open>What one leg contributes\<close>

text \<open>The marker of one stopover, the route line of one leg, its markers, and all it
  adds to the map when the counter stands at \<open>k\<close>: closed forms of the loop bodies, used
  to reason about \<^const>\<open>draw\<close>.\<close>

definition stopover_circle :: "stopover \<Rightarrow> element" where
  "stopover_circle so =
     Circle 1000 (latitude (stop so), longitude (stop so)) (stopover_popup so) ''crimson'' True"

definition leg_points :: "bool \<Rightarrow> leg \<Rightarrow> point list" where
  "leg_points only lg =
     (if only then [(latitude (origin lg), longitude (origin lg)),
                    (latitude (destination lg), longitude (destination lg))]
      else map (\<lambda>so. (latitude (stop so), longitude (stop so))) (stopovers lg))"

definition leg_circles :: "bool \<Rightarrow> leg \<Rightarrow> element list" where
  "leg_circles only lg =
     (if only
      then [Circle 1000 (latitude (origin lg), longitude (origin lg))
              (name (origin lg) @ '' - '' @ strftime (leg.departure lg)) ''crimson'' True,
            Circle 1000 (latitude (destination lg), longitude (destination lg))
              (name (destination lg) @ '' - '' @ strftime (leg.arrival lg)) ''crimson'' True]
      else map stopover_circle (stopovers lg))"

definition leg_elements :: "bool \<Rightarrow> nat \<Rightarrow> leg \<Rightarrow> element list" where
  "leg_elements only k lg =
     leg_circles only lg @ [PolyLine (leg_points only lg) (palette ! (k mod 5))]"

section \<open>\<^verbatim>\<open>convert_station_str_to_station\<close>\<close>

text \<open>
  The parameters are what the function gets from outside: \<open>repr\<close>, the text pyhafas
  prints for a Station object; \<open>locations\<close>, the answer of
  \<^verbatim>\<open>hafas_client.locations(station_str)\<close>; and \<open>reply\<close>, what \<^verbatim>\<open>int(input(...))\<close>
  makes of the user's line should the function ask. The result is the terminal traffic
  and how the function ends.
\<close>

definition candidate_lines :: "station list \<Rightarrow> io list" where
  "candidate_lines locations =
     map (\<lambda>(i, location). Print (str_nat (i + 1) @ '': '' @ name location))
       (enumerate 0 (take 5 locations))"

definition convert_station_str_to_station ::
    "(station \<Rightarrow> string) \<Rightarrow> station list \<Rightarrow> string \<Rightarrow> typed \<Rightarrow> io list \<times> station result" where
  "convert_station_str_to_station repr locations station_str reply =
     (if length locations = 0
      then ([Print (''Could not find any stations with the name '' @ station_str)], Exit 1)
      else if length locations = 1
      then ([Print (''Found the following station: '' @ repr (locations ! 0))],
            Return (locations ! 0))
      else
        (let out = [Print ''Found the following stations:''] @ candidate_lines locations @
                   [Input ''Please select the station you want to use: '']
         in case reply of
              NotAnInteger \<Rightarrow> (out @ [Print ''Invalid input''], Exit 1)
            | Integer n \<Rightarrow>
                (case getitem locations (n - 1) of
                   Inl e \<Rightarrow> (out @ [Print ''Invalid index''], Exit 1)
                 | Inr station \<Rightarrow> (out, Return station))))"

section \<open>The command-line block\<close>

text \<open>One line of the journey list, for the journey at position \<open>i\<close>. The fields of the
  f-string are evaluated left to right, so a journey without legs raises IndexError at
  \<^verbatim>\<open>journey.legs[0]\<close>.\<close>

definition route_line :: "nat \<Rightarrow> journey \<Rightarrow> exn + string" where
  "route_line i j =
     (case getitem (legs j) 0 of
        Inl e \<Rightarrow> Inl e
      | Inr first \<Rightarrow>
          (case getitem (legs j) (- 1) of
             Inl e \<Rightarrow> Inl e
           | Inr final \<Rightarrow>
               (let start = ''- '' @ str_nat i @ '': Journey starts at '' @
                      strftime (leg.departure first) @ '' and ends at '' @
                      strftime (leg.arrival final) @ ''. The complete journey takes '' @
                      str_timedelta (duration j) @ '' and has ''
                in if length (legs j) = 1
                   then Inr (start @ ''no changes'')
                   else Inr (start @ str_nat (length (legs j) - 1) @ '' changes (at '' @
                          join '', '' (map (\<lambda>lg. name (destination lg)) (butlast (legs j))) @
                          '')''))))"

text \<open>The loop \<^verbatim>\<open>for i,journey in enumerate(journeys)\<close> that prints the list: the
  lines printed, and the exception when a line's f-string raises.\<close>

fun print_routes :: "(nat \<times> journey) list \<Rightarrow> io list \<times> exn option" where
  "print_routes [] = ([], None)"
| "print_routes ((i, j) # rest) =
     (case route_line i j of
        Inl e \<Rightarrow> ([], Some e)
      | Inr line \<Rightarrow> (case print_routes rest of (out, r) \<Rightarrow> (Print line # out, r)))"

definition route_lines :: "journey list \<Rightarrow> io list \<times> exn option" where
  "route_lines journeys = print_routes (enumerate 0 journeys)"

text \<open>The text of one line in closed form, for a journey with at least one leg: the
  names are written out one by one, each but the last followed by the separator.\<close>

definition route_text :: "nat \<Rightarrow> journey \<Rightarrow> string" where
  "route_text i j =
     ''- '' @ str_nat i @ '': Journey starts at '' @
     strftime (leg.departure (hd (legs j))) @ '' and ends at '' @
     strftime (leg.arrival (last (legs j))) @ ''. The complete journey takes '' @
     str_timedelta (duration j) @ '' and has '' @
     (if length (legs j) - 1 = 0 then ''no changes''
      else str_nat (length (legs j) - 1) @ '' changes (at '' @
           concat (map (\<lambda>lg. name (destination lg) @ '', '') (take (length (legs j) - 2) (legs j))) @
           name (destination (legs j ! (length (legs j) - 2))) @ '')'')"

text \<open>Reading and checking the user's choice of journey:
  \<^verbatim>\<open>route_selection = int(input(...))\<close> stands outside any \<^verbatim>\<open>try\<close>, then the range
  check.\<close>

definition select_route :: "journey list \<Rightarrow> typed \<Rightarrow> io list \<times> journey result" where
  "select_route journeys reply =
     (let out = [Input ''Please select the journey you want to use: '']
      in case reply of
           NotAnInteger \<Rightarrow> (out, Raise ValueError)
         | Integer route_selection \<Rightarrow>
             if route_selection < 0 \<or> route_selection \<ge> int (length journeys)
             then (out @ [Print ''Invalid selection''], Exit 1)
             else (out, Return (journeys ! nat route_selection)))"

section \<open>Sample data\<close>

definition berlin_hbf :: station where
  "berlin_hbf = \<lparr>station_id = ''8011160'', name = ''Berlin Hbf'', latitude = 52.525, longitude = 13.369\<rparr>"

definition suedkreuz :: station where
  "suedkreuz = \<lparr>station_id = ''8011113'', name = ''Berlin Suedkreuz'', latitude = 52.475, longitude = 13.365\<rparr>"

definition leipzig_hbf :: station where
  "leipzig_hbf = \<lparr>station_id = ''8010205'', name = ''Leipzig Hbf'', latitude = 51.345, longitude = 12.382\<rparr>"

definition erfurt_hbf :: station where
  "erfurt_hbf = \<lparr>station_id = ''8010101'', name = ''Erfurt Hbf'', latitude = 50.972, longitude = 11.038\<rparr>"

definition at_time :: "nat \<Rightarrow> nat \<Rightarrow> datetime" where
  "at_time h m = \<lparr>year = 2024, month = 3, day = 9, hour = h, minute = m, second = 0\<rparr>"

text \<open>A leg with three stopovers: one with a departure time, one with an arrival time
  only, one with neither.\<close>

definition first_leg :: leg where
  "first_leg = \<lparr>origin = berlin_hbf, destination = suedkreuz,
     departure = at_time 9 0, arrival = at_time 9 45,
     stopovers = [\<lparr>stop = berlin_hbf, arrival = None, departure = Some (at_time 9 0)\<rparr>,
                  \<lparr>stop = suedkreuz, arrival = Some (at_time 9 45), departure = None\<rparr>,
                  \<lparr>stop = leipzig_hbf, arrival = None, departure = None\<rparr>]\<rparr>"

text \<open>A leg for which the provider lists no stopovers.\<close>

definition second_leg :: leg where
  "second_leg = \<lparr>origin = suedkreuz, destination = leipzig_hbf,
     departure = at_time 9 50, arrival = at_time 10 30, stopovers = []\<rparr>"

definition third_leg :: leg where
  "third_leg = \<lparr>origin = leipzig_hbf, destination = erfurt_hbf,
     departure = at_time 10 40, arrival = at_time 11 40,
     stopovers = [\<lparr>stop = leipzig_hbf, arrival = None, departure = Some (at_time 10 40)\<rparr>,
                  \<lparr>stop = erfurt_hbf, arrival = Some (at_time 11 40), departure = None\<rparr>]\<rparr>"

definition direct_trip :: journey where
  "direct_trip = \<lparr>legs = [first_leg], duration = \<lparr>days = 0, seconds = 2700, microseconds = 0\<rparr>\<rparr>"

definition changing_trip :: journey where
  "changing_trip = \<lparr>legs = [first_leg, second_leg],
     duration = \<lparr>days = 0, seconds = 5400, microseconds = 0\<rparr>\<rparr>"

definition triple_trip :: journey where
  "triple_trip = \<lparr>legs = [first_leg, second_leg, third_leg],
     duration = \<lparr>days = 0, seconds = 9600, microseconds = 0\<rparr>\<rparr>"

definition stopless_trip :: journey where
  "stopless_trip = \<lparr>legs = [second_leg],
     duration = \<lparr>days = 0, seconds = 2400, microseconds = 0\<rparr>\<rparr>"

definition long_trip :: journey where
  "long_trip = \<lparr>legs = replicate 7 first_leg,
     duration = \<lparr>days = 1, seconds = 60, microseconds = 0\<rparr>\<rparr>"

section \<open>The loops of \<^verbatim>\<open>draw\<close> in closed form\<close>

lemma fold_stopover_body:
  "fold stopover_body sos s =
     s\<lparr>the_map := (the_map s)\<lparr>children := children (the_map s) @ map stopover_circle sos\<rparr>,
       route_line_points :=
         route_line_points s @ map (\<lambda>so. (latitude (stop so), longitude (stop so))) sos\<rparr>"
  by (induction sos arbitrary: s)
     (simp_all add: stopover_body_def add_to_def append_point_def stopover_circle_def Let_def)

lemma leg_points_empty: "leg_points only lg = [] \<longleftrightarrow> \<not> only \<and> stopovers lg = []"
  by (simp add: leg_points_def)

lemma leg_body_raises:
  assumes "\<not> only" and "stopovers lg = []"
  shows "leg_body only lg s = (s\<lparr>route_line_points := []\<rparr>, Some ValueError)"
  using assms by (simp add: leg_body_def folium_PolyLine_def Let_def)

lemma leg_body_returns:
  assumes "only \<or> stopovers lg \<noteq> []"
  shows "leg_body only lg s =
     (s\<lparr>the_map := (the_map s)\<lparr>children :=
          children (the_map s) @ leg_elements only (transfer_count s) lg\<rparr>,
        transfer_count := transfer_count s + 1,
        route_line_points := leg_points only lg\<rparr>, None)"
  using assms
  by (auto simp add: leg_body_def fold_stopover_body transfer_body_def add_to_def append_point_def
      folium_PolyLine_def leg_elements_def leg_circles_def leg_points_def Let_def)

lemma run_legs_journey: "journey (fst (run_legs only lgs s)) = journey s"
proof (induction lgs arbitrary: s)
  case Nil
  show ?case by simp
next
  case (Cons lg lgs)
  show ?case
  proof (cases "only \<or> stopovers lg \<noteq> []")
    case True
    then show ?thesis by (simp add: leg_body_returns Cons.IH)
  next
    case False
    then show ?thesis by (simp add: leg_body_raises)
  qed
qed

lemma run_legs_outcome:
  "snd (run_legs only lgs s) =
     (if only \<or> (\<forall>lg \<in> set lgs. stopovers lg \<noteq> []) then None else Some ValueError)"
proof (induction lgs arbitrary: s)
  case Nil
  show ?case by simp
next
  case (Cons lg lgs)
  show ?case
  proof (cases "only \<or> stopovers lg \<noteq> []")
    case True
    then show ?thesis by (auto simp add: leg_body_returns Cons.IH)
  next
    case False
    then show ?thesis by (simp add: leg_body_raises)
  qed
qed

lemma run_legs_children:
  "children (the_map (fst (run_legs only lgs s))) =
     children (the_map s) @
     concat (map (\<lambda>(k, lg). leg_elements only k lg)
       (enumerate (transfer_count s) (takeWhile (\<lambda>lg. only \<or> stopovers lg \<noteq> []) lgs)))"
proof (induction lgs arbitrary: s)
  case Nil
  show ?case by simp
next
  case (Cons lg lgs)
  show ?case
  proof (cases "only \<or> stopovers lg \<noteq> []")
    case True
    then show ?thesis by (auto simp add: leg_body_returns Cons.IH)
  next
    case False
    then show ?thesis by (simp add: leg_body_raises)
  qed
qed

lemma getitem_first: "getitem xs 0 = (case xs of [] \<Rightarrow> Inl IndexError | x # _ \<Rightarrow> Inr x)"
  by (cases xs) (simp_all add: getitem_def)

lemma getitem_final: "xs \<noteq> [] \<Longrightarrow> getitem xs (- 1) = Inr (last xs)"
  by (cases xs rule: rev_cases) (simp_all add: getitem_def)

lemma draw_run_empty: "legs j = [] \<Longrightarrow> draw_run j only = Inl IndexError"
  by (simp add: draw_run_def getitem_first)

lemma draw_run_state:
  assumes "legs j \<noteq> []"
  shows "\<exists>s. draw_run j only =
               Inr (s, if only \<or> (\<forall>lg \<in> set (legs j). stopovers lg \<noteq> [])
                        then None else Some ValueError) \<and>
             journey s = j \<and>
             children (the_map s) = [LocateControl, MeasureControl] @
               concat (map (\<lambda>(k, lg). leg_elements only k lg)
                 (enumerate 0 (takeWhile (\<lambda>lg. only \<or> stopovers lg \<noteq> []) (legs j))))"
proof -
  from assms obtain l0 ls where l: "legs j = l0 # ls" by (cases "legs j") auto
  define s0 where "s0 = \<lparr>journey = j,
       the_map = \<lparr>location = (latitude (origin l0), longitude (origin l0)),
                  zoom_start = 8, children = [LocateControl, MeasureControl]\<rparr>,
       transfer_count = 0, route_line_points = []\<rparr>"
  have run: "draw_run j only = Inr (run_legs only (legs j) s0)"
    by (simp add: draw_run_def getitem_first l s0_def)
  have "run_legs only (legs j) s0 = (fst (run_legs only (legs j) s0), snd (run_legs only (legs j) s0))"
    by simp
  then have "draw_run j only =
      Inr (fst (run_legs only (legs j) s0),
           if only \<or> (\<forall>lg \<in> set (legs j). stopovers lg \<noteq> []) then None else Some ValueError)"
    by (simp only: run run_legs_outcome)
  moreover have "journey (fst (run_legs only (legs j) s0)) = j"
    by (simp add: run_legs_journey s0_def)
  moreover have "children (the_map (fst (run_legs only (legs j) s0))) =
      [LocateControl, MeasureControl] @
        concat (map (\<lambda>(k, lg). leg_elements only k lg)
          (enumerate 0 (takeWhile (\<lambda>lg. only \<or> stopovers lg \<noteq> []) (legs j))))"
    by (simp only: run_legs_children) (simp add: s0_def)
  ultimately show ?thesis by blast
qed

lemma filter_circle_leg_elements: "filter is_circle (leg_elements only k lg) = leg_circles only lg"
  by (simp add: leg_elements_def leg_circles_def stopover_circle_def)

lemma filter_polyline_leg_elements:
  "filter is_polyline (leg_elements only k lg) =
     [PolyLine (leg_points only lg) (palette ! (k mod 5))]"
  by (simp add: leg_elements_def leg_circles_def stopover_circle_def)

lemma concat_map_enumerate_snd:
  "concat (map (\<lambda>(k, x). f x) (enumerate n xs)) = concat (map f xs)"
  by (induction xs arbitrary: n) simp_all

lemma concat_map_enumerate_single:
  "concat (map (\<lambda>(k, x). [g k x]) (enumerate n xs)) = map (\<lambda>(k, x). g k x) (enumerate n xs)"
  by (induction xs arbitrary: n) simp_all

lemma map_enumerate_snd: "map (\<lambda>(k, x). f x) (enumerate n xs) = map f xs"
  by (induction xs arbitrary: n) simp_all

lemma map_enumerate_fst: "map (\<lambda>(k, x). g k) (enumerate n xs) = map g [n..<n + length xs]"
  by (induction xs arbitrary: n) (simp_all add: upt_rec)

text \<open>Every run that gets past the first statement: how it ends, and the markers and
  polylines on the map when it ends. The legs that got their polyline are those before
  the first leg with an empty route line.\<close>

lemma draw_run_lists:
  assumes "legs j \<noteq> []"
  shows "\<exists>s. draw_run j only =
               Inr (s, if only \<or> (\<forall>lg \<in> set (legs j). stopovers lg \<noteq> [])
                        then None else Some ValueError) \<and>
             journey s = j \<and>
             circles (the_map s) =
               concat (map (leg_circles only)
                 (takeWhile (\<lambda>lg. only \<or> stopovers lg \<noteq> []) (legs j))) \<and>
             polylines (the_map s) =
               map (\<lambda>(k, lg). PolyLine (leg_points only lg) (palette ! (k mod 5)))
                 (enumerate 0 (takeWhile (\<lambda>lg. only \<or> stopovers lg \<noteq> []) (legs j)))"
proof -
  define ok where "ok = takeWhile (\<lambda>lg. only \<or> stopovers lg \<noteq> []) (legs j)"
  from draw_run_state [OF assms, of only] obtain s where
    s: "draw_run j only =
          Inr (s, if only \<or> (\<forall>lg \<in> set (legs j). stopovers lg \<noteq> [])
                   then None else Some ValueError)"
       "journey s = j"
       "children (the_map s) = [LocateControl, MeasureControl] @
          concat (map (\<lambda>(k, lg). leg_elements only k lg) (enumerate 0 ok))"
    unfolding ok_def by blast
  have "circles (the_map s) = concat (map (\<lambda>(k, lg). leg_circles only lg) (enumerate 0 ok))"
    by (simp add: circles_def s(3) filter_concat comp_def case_prod_unfold
        filter_circle_leg_elements)
  then have c: "circles (the_map s) = concat (map (leg_circles only) ok)"
    by (simp only: concat_map_enumerate_snd)
  have "polylines (the_map s) =
      concat (map (\<lambda>(k, lg). [PolyLine (leg_points only lg) (palette ! (k mod 5))])
        (enumerate 0 ok))"
    by (simp add: polylines_def s(3) filter_concat comp_def case_prod_unfold
        filter_polyline_leg_elements)
  then have p: "polylines (the_map s) =
      map (\<lambda>(k, lg). PolyLine (leg_points only lg) (palette ! (k mod 5))) (enumerate 0 ok)"
    by (simp only: concat_map_enumerate_single)
  from s(1,2) c p show ?thesis unfolding ok_def by blast
qed

text \<open>\<^const>\<open>draw\<close> returns a map when the journey has a leg and no route line comes out
  empty: in transfer-only mode, or when every leg has a stopover.\<close>

lemma draw_returns:
  assumes "legs j \<noteq> []" and "only \<or> (\<forall>lg \<in> set (legs j). stopovers lg \<noteq> [])"
  shows "\<exists>m. draw j only = Inr m \<and>
           circles m = concat (map (leg_circles only) (legs j)) \<and>
           polylines m =
             map (\<lambda>(k, lg). PolyLine (leg_points only lg) (palette ! (k mod 5)))
               (enumerate 0 (legs j))"
proof -
  from assms(2) have all: "takeWhile (\<lambda>lg. only \<or> stopovers lg \<noteq> []) (legs j) = legs j"
    by (auto simp add: takeWhile_eq_all_conv)
  from draw_run_lists [OF assms(1), of only] assms(2) obtain s where
    s: "draw_run j only = Inr (s, None)"
       "circles (the_map s) = concat (map (leg_circles only) (legs j))"
       "polylines (the_map s) =
          map (\<lambda>(k, lg). PolyLine (leg_points only lg) (palette ! (k mod 5)))
            (enumerate 0 (legs j))"
    unfolding all by auto
  from s(1) have "draw j only = Inr (the_map s)"
    by (simp add: draw_def)
  with s(2,3) show ?thesis by blast
qed

text \<open>In detailed mode it raises when some leg has no stopovers.\<close>

lemma draw_raises:
  assumes "legs j \<noteq> []" and "lg \<in> set (legs j)" and "stopovers lg = []"
  shows "draw j False = Inl ValueError"
proof -
  from assms(2,3) have no: "\<not> (False \<or> (\<forall>lg \<in> set (legs j). stopovers lg \<noteq> []))"
    by auto
  from draw_run_lists [OF assms(1), of False] obtain s where
    "draw_run j False =
       Inr (s, if False \<or> (\<forall>lg \<in> set (legs j). stopovers lg \<noteq> [])
                then None else Some ValueError)"
    by blast
  then have "draw_run j False = Inr (s, Some ValueError)"
    by (simp only: no if_False)
  then show ?thesis by (simp add: draw_def)
qed

lemma draw_empty: "legs j = [] \<Longrightarrow> draw j only = Inl IndexError"
  by (simp add: draw_def draw_run_empty)

section \<open>Station resolution\<close>

text \<open>The numbered lines, and how the function ends for each kind of reply when more
  than one candidate is on offer.\<close>

lemma candidate_lines_length: "length (candidate_lines locations) = min (length locations) 5"
  by (simp add: candidate_lines_def)

lemma candidate_lines_nth:
  assumes "i < min (length locations) 5"
  shows "candidate_lines locations ! i = Print (str_nat (i + 1) @ '': '' @ name (locations ! i))"
  using assms by (simp add: candidate_lines_def nth_enumerate_eq)

lemma station_selection_in_range:
  assumes "1 < length locations" and "1 \<le> n" and "n \<le> int (length locations)"
  shows "snd (convert_station_str_to_station repr locations station_str (Integer n)) =
           Return (locations ! nat (n - 1))"
  using assms by (auto simp add: convert_station_str_to_station_def getitem_def Let_def)

lemma station_selection_past_end:
  assumes "1 < length locations" and "int (length locations) < n"
  shows "snd (convert_station_str_to_station repr locations station_str (Integer n)) = Exit 1"
  using assms by (simp add: convert_station_str_to_station_def getitem_def Let_def)

lemma station_selection_wraps:
  assumes "1 < length locations" and "1 - int (length locations) \<le> n" and "n \<le> 0"
  shows "snd (convert_station_str_to_station repr locations station_str (Integer n)) =
           Return (locations ! nat (int (length locations) + n - 1))"
  using assms by (auto simp add: convert_station_str_to_station_def getitem_def Let_def add.commute diff_add_eq)

lemma station_selection_not_integer:
  assumes "1 < length locations"
  shows "snd (convert_station_str_to_station repr locations station_str NotAnInteger) = Exit 1"
  using assms by (simp add: convert_station_str_to_station_def Let_def)

text \<open>
  C7. When the lookup returns no candidate, \<^const>\<open>convert_station_str_to_station\<close>
  prints that no station of that name was found and leaves with \<^verbatim>\<open>sys.exit(1)\<close>. That
  line is all its terminal traffic: it does not ask the user, and it returns no station.
\<close>

theorem empty_lookup_exits:
  assumes "locations = []"
  shows "convert_station_str_to_station repr locations station_str reply =
           ([Print (''Could not find any stations with the name '' @ station_str)], Exit 1)"
  using assms by (simp add: convert_station_str_to_station_def)

theorem empty_lookup_exits_witness:
  "convert_station_str_to_station name [] ''Atlantis'' (Integer 1) =
     ([Print ''Could not find any stations with the name Atlantis''], Exit 1)"
  using empty_lookup_exits [of "[]" name "''Atlantis''" "Integer 1"] by simp

text \<open>
  C1. The claim has a selection of 0 fail. With three candidates on offer and the reply
  \<^verbatim>\<open>0\<close>, the function computes the index \<^verbatim>\<open>-1\<close>, which Python reads from the end of
  the list: no IndexError is raised, nothing is reported, and the last candidate is
  returned.
\<close>

theorem station_selection_zero:
  "convert_station_str_to_station repr [berlin_hbf, suedkreuz, leipzig_hbf] ''Berlin'' (Integer 0) =
     ([Print ''Found the following stations:'',
       Print ''1: Berlin Hbf'', Print ''2: Berlin Suedkreuz'', Print ''3: Leipzig Hbf'',
       Input ''Please select the station you want to use: ''],
      Return leipzig_hbf)"
  by (simp add: convert_station_str_to_station_def candidate_lines_def getitem_def
      str_nat.simps digit_def berlin_hbf_def suedkreuz_def leipzig_hbf_def)

section \<open>Choosing a journey\<close>

lemma route_selection_out_of_range:
  assumes "n < 0 \<or> int (length journeys) \<le> n"
  shows "select_route journeys (Integer n) =
           ([Input ''Please select the journey you want to use: '', Print ''Invalid selection''],
            Exit 1)"
  using assms by (auto simp add: select_route_def)

lemma route_selection_in_range:
  assumes "0 \<le> n" and "n < int (length journeys)"
  shows "select_route journeys (Integer n) =
           ([Input ''Please select the journey you want to use: ''],
            Return (journeys ! nat n))"
  using assms by (simp add: select_route_def)

text \<open>
  C2. The claim has a reply that is no integer fail like an out-of-range one, with a
  message of the program and \<^verbatim>\<open>sys.exit\<close>. The conversion of the reply stands outside
  any \<^verbatim>\<open>try\<close>: after the prompt the ValueError of \<^verbatim>\<open>int\<close> leaves the script uncaught,
  and the script prints nothing of its own.
\<close>

theorem route_selection_not_integer:
  "select_route journeys NotAnInteger =
     ([Input ''Please select the journey you want to use: ''], Raise ValueError)"
  by (simp add: select_route_def)

text \<open>The list of names in a line, written out, and the line and the loop in closed
  form.\<close>

lemma join_sep:
  "xs \<noteq> [] \<Longrightarrow> join sep xs = concat (map (\<lambda>x. x @ sep) (butlast xs)) @ last xs"
  by (induction sep xs rule: join.induct) simp_all

lemma names_before_last:
  assumes "2 \<le> length lgs"
  shows "join sep (map f (butlast lgs)) =
           concat (map (\<lambda>lg. f lg @ sep) (take (length lgs - 2) lgs)) @ f (lgs ! (length lgs - 2))"
proof -
  from assms have ne: "map f (butlast lgs) \<noteq> []"
    by (cases lgs rule: rev_cases) auto
  have "butlast (butlast lgs) = take (length lgs - 2) lgs"
    by (simp add: butlast_conv_take min_def numeral_2_eq_2)
  then have b: "butlast (map f (butlast lgs)) = map f (take (length lgs - 2) lgs)"
    by (simp only: map_butlast [symmetric])
  have "last (map f (butlast lgs)) = f (last (butlast lgs))"
    using ne by (simp add: last_map)
  also have "last (butlast lgs) = butlast lgs ! (length (butlast lgs) - 1)"
    using ne by (simp add: last_conv_nth)
  also have "\<dots> = lgs ! (length lgs - 2)"
    using assms by (simp add: nth_butlast numeral_2_eq_2)
  finally have l: "last (map f (butlast lgs)) = f (lgs ! (length lgs - 2))" .
  show ?thesis
    by (simp only: join_sep [OF ne] b l) (simp add: comp_def)
qed

lemma route_line_text:
  assumes "legs j \<noteq> []"
  shows "route_line i j = Inr (route_text i j)"
proof -
  from assms obtain l0 ls where l: "legs j = l0 # ls" by (cases "legs j") auto
  have first: "getitem (legs j) 0 = Inr (hd (legs j))"
    by (simp add: getitem_first l)
  have final: "getitem (legs j) (- 1) = Inr (last (legs j))"
    using assms by (rule getitem_final)
  show ?thesis
  proof (cases "length (legs j) = 1")
    case True
    then show ?thesis
      unfolding route_line_def first final route_text_def by (simp add: Let_def)
  next
    case False
    moreover from assms have "length (legs j) \<noteq> 0" by simp
    ultimately have two: "2 \<le> length (legs j)" by arith
    then have n: "length (legs j) - 1 \<noteq> 0" by simp
    show ?thesis
      unfolding route_line_def first final route_text_def
      using False n by (simp add: Let_def names_before_last [OF two] del: One_nat_def)
  qed
qed

lemma print_routes_text:
  assumes "\<forall>j \<in> set journeys. legs j \<noteq> []"
  shows "print_routes (enumerate n journeys) =
           (map (\<lambda>(i, j). Print (route_text i j)) (enumerate n journeys), None)"
  using assms by (induction journeys arbitrary: n) (simp_all add: route_line_text)

text \<open>
  C8. For journeys that all have a leg, the loop prints one line per journey, in order.
  The line holds the journey's position in the list counted from 0, the departure time of
  the first leg, the arrival time of the last leg and the total duration. With \<open>n\<close> the
  number of legs less one, it ends in \<^verbatim>\<open>no changes\<close> when \<open>n = 0\<close>; otherwise it gives
  \<open>n\<close> and the destination names of the first \<open>n\<close> legs in order, each but the last
  followed by a comma and a blank.
\<close>

theorem route_lines_summary:
  assumes "\<forall>j \<in> set journeys. legs j \<noteq> []"
  shows "route_lines journeys =
           (map (\<lambda>(i, j). Print
              (''- '' @ str_nat i @ '': Journey starts at '' @
               strftime (leg.departure (hd (legs j))) @ '' and ends at '' @
               strftime (leg.arrival (last (legs j))) @ ''. The complete journey takes '' @
               str_timedelta (duration j) @ '' and has '' @
               (if length (legs j) - 1 = 0 then ''no changes''
                else str_nat (length (legs j) - 1) @ '' changes (at '' @
                     concat (map (\<lambda>lg. name (destination lg) @ '', '')
                               (take (length (legs j) - 2) (legs j))) @
                     name (destination (legs j ! (length (legs j) - 2))) @ '')'')))
              (enumerate 0 journeys),
            None)"
  using print_routes_text [OF assms, of 0]
  by (simp add: route_lines_def route_text_def)

theorem route_lines_summary_witness:
  "list_all (\<lambda>j. legs j \<noteq> []) [direct_trip, changing_trip, triple_trip] \<and>
   route_lines [direct_trip, changing_trip, triple_trip] =
     ([Print ''- 0: Journey starts at 09:00 09.03.2024 and ends at 09:45 09.03.2024. The complete journey takes 0:45:00 and has no changes'',
       Print ''- 1: Journey starts at 09:00 09.03.2024 and ends at 10:30 09.03.2024. The complete journey takes 1:30:00 and has 1 changes (at Berlin Suedkreuz)'',
       Print ''- 2: Journey starts at 09:00 09.03.2024 and ends at 11:40 09.03.2024. The complete journey takes 2:40:00 and has 2 changes (at Berlin Suedkreuz, Leipzig Hbf)''],
      None)"
proof -
  have h: "\<forall>j \<in> set [direct_trip, changing_trip, triple_trip]. legs j \<noteq> []"
    by (simp add: direct_trip_def changing_trip_def triple_trip_def)
  have t: "strftime (at_time 9 0) = ''09:00 09.03.2024''"
    "strftime (at_time 9 45) = ''09:45 09.03.2024''"
    "strftime (at_time 10 30) = ''10:30 09.03.2024''"
    "strftime (at_time 11 40) = ''11:40 09.03.2024''"
    by (simp_all add: strftime_def at_time_def pad2_def digit_def str_nat.simps)
  have d: "str_timedelta \<lparr>days = 0, seconds = 2700, microseconds = 0\<rparr> = ''0:45:00''"
    "str_timedelta \<lparr>days = 0, seconds = 5400, microseconds = 0\<rparr> = ''1:30:00''"
    "str_timedelta \<lparr>days = 0, seconds = 9600, microseconds = 0\<rparr> = ''2:40:00''"
    by (simp_all add: str_timedelta_def Let_def pad2_def digit_def str_nat.simps)
  have n: "str_nat 0 = ''0''" "str_nat 1 = ''1''" "str_nat (Suc 0) = ''1''" "str_nat 2 = ''2''"
    "str_nat (Suc (Suc 0)) = ''2''"
    by (simp_all add: str_nat.simps digit_def)
  have e: "x = ([Print ''- 0: Journey starts at 09:00 09.03.2024 and ends at 09:45 09.03.2024. The complete journey takes 0:45:00 and has no changes'',
       Print ''- 1: Journey starts at 09:00 09.03.2024 and ends at 10:30 09.03.2024. The complete journey takes 1:30:00 and has 1 changes (at Berlin Suedkreuz)'',
       Print ''- 2: Journey starts at 09:00 09.03.2024 and ends at 11:40 09.03.2024. The complete journey takes 2:40:00 and has 2 changes (at Berlin Suedkreuz, Leipzig Hbf)''],
      None)"
    if "x = (map (\<lambda>(i, j). Print (route_text i j))
               (enumerate 0 [direct_trip, changing_trip, triple_trip]), None)"
    for x :: "io list \<times> exn option"
    unfolding that
    by (simp add: route_text_def direct_trip_def changing_trip_def triple_trip_def first_leg_def
        second_leg_def third_leg_def suedkreuz_def leipzig_hbf_def t d n)
  have "route_lines [direct_trip, changing_trip, triple_trip] =
     ([Print ''- 0: Journey starts at 09:00 09.03.2024 and ends at 09:45 09.03.2024. The complete journey takes 0:45:00 and has no changes'',
       Print ''- 1: Journey starts at 09:00 09.03.2024 and ends at 10:30 09.03.2024. The complete journey takes 1:30:00 and has 1 changes (at Berlin Suedkreuz)'',
       Print ''- 2: Journey starts at 09:00 09.03.2024 and ends at 11:40 09.03.2024. The complete journey takes 2:40:00 and has 2 changes (at Berlin Suedkreuz, Leipzig Hbf)''],
      None)"
    by (rule e) (rule route_lines_summary [OF h, folded route_text_def])
  with h show ?thesis by (simp add: list_all_iff)
qed

section \<open>The rendered map\<close>

text \<open>
  C3. In detailed mode, on a journey whose legs all have stopovers, \<^const>\<open>draw\<close> returns
  a map whose markers are those of the stopovers, leg by leg and in order; the popup of
  each reads the stop's name, \<^verbatim>\<open>" - "\<close>, and then the departure time when the stopover
  has one, else the arrival time when it has one, else the word \<^verbatim>\<open>unknown\<close>.
\<close>

theorem stopover_popup_policy:
  assumes "legs j \<noteq> []" and "\<forall>lg \<in> set (legs j). stopovers lg \<noteq> []"
  shows "\<exists>m. draw j False = Inr m \<and>
           map popup (circles m) =
             map (\<lambda>so. name (stop so) @ '' - '' @
                    (case stopover.departure so of
                       Some d \<Rightarrow> strftime d
                     | None \<Rightarrow> (case stopover.arrival so of
                                  Some a \<Rightarrow> strftime a
                                | None \<Rightarrow> ''unknown'')))
               (concat (map stopovers (legs j)))"
proof -
  from assms(2) have ok: "False \<or> (\<forall>lg \<in> set (legs j). stopovers lg \<noteq> [])" by simp
  from draw_returns [OF assms(1) ok] obtain m where
    m: "draw j False = Inr m" "circles m = concat (map (leg_circles False) (legs j))"
    by blast
  have "map popup (circles m) = map stopover_popup (concat (map stopovers (legs j)))"
    by (simp add: m(2) leg_circles_def map_concat comp_def stopover_circle_def)
  with m(1) show ?thesis
    by (simp add: stopover_popup_def)
qed

theorem stopover_popup_policy_witness:
  "legs direct_trip \<noteq> [] \<and> list_all (\<lambda>lg. stopovers lg \<noteq> []) (legs direct_trip) \<and>
   (\<exists>m. draw direct_trip False = Inr m \<and>
      map popup (circles m) =
        [''Berlin Hbf - 09:00 09.03.2024'',
         ''Berlin Suedkreuz - 09:45 09.03.2024'',
         ''Leipzig Hbf - unknown''])"
proof -
  have h: "legs direct_trip \<noteq> []" by (simp add: direct_trip_def)
  have g: "\<forall>lg \<in> set (legs direct_trip). stopovers lg \<noteq> []"
    by (simp add: direct_trip_def first_leg_def)
  have t: "strftime (at_time 9 0) = ''09:00 09.03.2024''"
    "strftime (at_time 9 45) = ''09:45 09.03.2024''"
    by (simp_all add: strftime_def at_time_def pad2_def digit_def str_nat.simps)
  from stopover_popup_policy [OF h g] obtain m where
    m: "draw direct_trip False = Inr m"
       "map popup (circles m) =
             map (\<lambda>so. name (stop so) @ '' - '' @
                    (case stopover.departure so of
                       Some d \<Rightarrow> strftime d
                     | None \<Rightarrow> (case stopover.arrival so of
                                  Some a \<Rightarrow> strftime a
                                | None \<Rightarrow> ''unknown'')))
               (concat (map stopovers (legs direct_trip)))"
    by blast
  from m(2) have "map popup (circles m) =
        [''Berlin Hbf - 09:00 09.03.2024'',
         ''Berlin Suedkreuz - 09:45 09.03.2024'',
         ''Leipzig Hbf - unknown'']"
    by (simp add: direct_trip_def first_leg_def berlin_hbf_def suedkreuz_def leipzig_hbf_def t)
  with h g m(1) show ?thesis by (simp add: list_all_iff)
qed

text \<open>
  C4. When \<^const>\<open>draw\<close> returns a map (transfer-only mode, or every leg has a stopover),
  the polyline of the leg at position \<open>i\<close>, counted from 0, has the colour
  \<open>palette ! (i mod 5)\<close> of the five-colour palette; so the colours repeat with period
  5: the leg at position \<open>i + 5\<close> has the colour of the leg at position \<open>i\<close>.
\<close>

theorem polyline_colors_cycle:
  assumes "legs j \<noteq> []" and "only \<or> (\<forall>lg \<in> set (legs j). stopovers lg \<noteq> [])"
  shows "\<exists>m. draw j only = Inr m \<and>
           map color (polylines m) = map (\<lambda>i. palette ! (i mod 5)) [0..<length (legs j)] \<and>
           (\<forall>i. i + 5 < length (legs j) \<longrightarrow>
                color (polylines m ! (i + 5)) = color (polylines m ! i))"
proof -
  from draw_returns [OF assms] obtain m where
    m: "draw j only = Inr m"
       "polylines m =
          map (\<lambda>(k, lg). PolyLine (leg_points only lg) (palette ! (k mod 5))) (enumerate 0 (legs j))"
    by blast
  have "map color (polylines m) = map (\<lambda>(k, lg). palette ! (k mod 5)) (enumerate 0 (legs j))"
    by (simp add: m(2) comp_def case_prod_unfold)
  then have cols: "map color (polylines m) = map (\<lambda>i. palette ! (i mod 5)) [0..<length (legs j)]"
    by (simp only: map_enumerate_fst) simp
  have len: "length (polylines m) = length (legs j)"
    by (simp add: m(2))
  have "color (polylines m ! (i + 5)) = color (polylines m ! i)" if "i + 5 < length (legs j)" for i
  proof -
    from that len have a: "i + 5 < length (polylines m)" and b: "i < length (polylines m)"
      by simp_all
    have "color (polylines m ! (i + 5)) = map color (polylines m) ! (i + 5)"
      using a by simp
    also have "\<dots> = palette ! ((i + 5) mod 5)"
      using that by (simp only: cols) simp
    also have "\<dots> = palette ! (i mod 5)"
      by simp
    also have "\<dots> = map color (polylines m) ! i"
      using that by (simp only: cols) simp
    also have "\<dots> = color (polylines m ! i)"
      using b by simp
    finally show ?thesis .
  qed
  with m(1) cols show ?thesis by blast
qed

theorem polyline_colors_cycle_witness:
  "legs long_trip \<noteq> [] \<and> list_all (\<lambda>lg. stopovers lg \<noteq> []) (legs long_trip) \<and>
   (\<exists>m. draw long_trip False = Inr m \<and>
      map color (polylines m) = [''Red'', ''Blue'', ''Green'', ''Black'', ''White'', ''Red'', ''Blue''] \<and>
      color (polylines m ! 6) = color (polylines m ! 1))"
proof -
  have h: "legs long_trip \<noteq> []" by (simp add: long_trip_def)
  have g: "\<forall>lg \<in> set (legs long_trip). stopovers lg \<noteq> []"
    by (simp add: long_trip_def first_leg_def)
  then have g': "False \<or> (\<forall>lg \<in> set (legs long_trip). stopovers lg \<noteq> [])" by simp
  have l: "length (legs long_trip) = 7" by (simp add: long_trip_def)
  have u: "[0..<7] = [0, 1, 2, 3, 4, 5, 6::nat]" by (simp add: upt_rec)
  from polyline_colors_cycle [OF h g'] obtain m where
    m: "draw long_trip False = Inr m"
       "map color (polylines m) = map (\<lambda>i. palette ! (i mod 5)) [0..<length (legs long_trip)]"
       "\<forall>i. i + 5 < length (legs long_trip) \<longrightarrow>
            color (polylines m ! (i + 5)) = color (polylines m ! i)"
    by blast
  from m(2) have "map color (polylines m) =
      [''Red'', ''Blue'', ''Green'', ''Black'', ''White'', ''Red'', ''Blue'']"
    by (simp add: l u palette_def)
  moreover from m(3) [rule_format, of 1] have "color (polylines m ! 6) = color (polylines m ! 1)"
    by (simp add: l)
  ultimately show ?thesis using h g m(1) by (simp add: list_all_iff)
qed

text \<open>A journey of one leg with \<open>m\<close> stopovers gives in transfer-only mode, for every
  \<open>m\<close>, one polyline of two points, the leg's origin and destination, and two markers;
  and in detailed mode, when \<open>m \<ge> 1\<close>, one polyline of \<open>m\<close> points and \<open>m\<close> markers.\<close>

lemma single_leg_counts:
  assumes "legs j = [lg]"
  shows "(stopovers lg \<noteq> [] \<longrightarrow>
           (\<exists>m. draw j False = Inr m \<and>
              length (polylines m) = 1 \<and>
              length (line_locations (hd (polylines m))) = length (stopovers lg) \<and>
              length (circles m) = length (stopovers lg))) \<and>
         (\<exists>m. draw j True = Inr m \<and>
            length (polylines m) = 1 \<and>
            line_locations (hd (polylines m)) =
              [(latitude (origin lg), longitude (origin lg)),
               (latitude (destination lg), longitude (destination lg))] \<and>
            length (circles m) = 2)"
proof -
  from assms have ne: "legs j \<noteq> []" by simp
  have "\<exists>m. draw j False = Inr m \<and>
            length (polylines m) = 1 \<and>
            length (line_locations (hd (polylines m))) = length (stopovers lg) \<and>
            length (circles m) = length (stopovers lg)" if "stopovers lg \<noteq> []"
  proof -
    from that assms have ok: "False \<or> (\<forall>lg \<in> set (legs j). stopovers lg \<noteq> [])" by simp
    from draw_returns [OF ne ok] assms show ?thesis
      by (auto simp add: leg_points_def leg_circles_def)
  qed
  moreover have "\<exists>m. draw j True = Inr m \<and>
            length (polylines m) = 1 \<and>
            line_locations (hd (polylines m)) =
              [(latitude (origin lg), longitude (origin lg)),
               (latitude (destination lg), longitude (destination lg))] \<and>
            length (circles m) = 2"
  proof -
    have ok: "True \<or> (\<forall>lg \<in> set (legs j). stopovers lg \<noteq> [])" by simp
    from draw_returns [OF ne ok] assms show ?thesis
      by (auto simp add: leg_points_def leg_circles_def)
  qed
  ultimately show ?thesis by blast
qed

lemma single_leg_counts_example:
  "legs direct_trip = [first_leg] \<and> stopovers first_leg \<noteq> [] \<and>
   (\<exists>m. draw direct_trip False = Inr m \<and>
      length (polylines m) = 1 \<and>
      length (line_locations (hd (polylines m))) = 3 \<and>
      length (circles m) = 3) \<and>
   (\<exists>m. draw direct_trip True = Inr m \<and>
      length (polylines m) = 1 \<and>
      line_locations (hd (polylines m)) = [(52.525, 13.369), (52.475, 13.365)] \<and>
      length (circles m) = 2)"
proof -
  have h: "legs direct_trip = [first_leg]" by (simp add: direct_trip_def)
  have g: "stopovers first_leg \<noteq> []" by (simp add: first_leg_def)
  have n: "length (stopovers first_leg) = 3" by (simp add: first_leg_def)
  have o: "(latitude (origin first_leg), longitude (origin first_leg)) = (52.525, 13.369)"
    by (simp add: first_leg_def berlin_hbf_def)
  have d: "(latitude (destination first_leg), longitude (destination first_leg)) = (52.475, 13.365)"
    by (simp add: first_leg_def suedkreuz_def)
  show ?thesis
    using h g single_leg_counts [OF h] unfolding n o d by simp
qed

text \<open>
  C5. The claim covers a single leg with \<open>m = 0\<close> stopovers, for which it has detailed
  mode give one polyline of no points and no marker. On such a journey the leg's route
  line is empty, the polyline's constructor raises ValueError, and \<^const>\<open>draw\<close> gives
  the caller the exception and no map.
\<close>

theorem single_leg_without_stopovers_raises:
  "legs stopless_trip = [second_leg] \<and> length (stopovers second_leg) = 0 \<and>
   draw stopless_trip False = Inl ValueError"
proof -
  have l: "legs stopless_trip = [second_leg]" by (simp add: stopless_trip_def)
  have e: "stopovers second_leg = []" by (simp add: second_leg_def)
  have "draw stopless_trip False = Inl ValueError"
    by (rule draw_raises [of stopless_trip second_leg]) (simp_all add: l e)
  with l e show ?thesis by simp
qed

text \<open>When no route line is empty the map gets one polyline per leg, in the order of the
  legs, each through that leg's route line; a route line of a single point is drawn like
  any other.\<close>

lemma polyline_for_each_leg:
  assumes "legs j \<noteq> []" and "only \<or> (\<forall>lg \<in> set (legs j). stopovers lg \<noteq> [])"
  shows "\<exists>m. draw j only = Inr m \<and>
           length (polylines m) = length (legs j) \<and>
           map line_locations (polylines m) = map (leg_points only) (legs j)"
proof -
  from draw_returns [OF assms] obtain m where
    m: "draw j only = Inr m"
       "polylines m =
          map (\<lambda>(k, lg). PolyLine (leg_points only lg) (palette ! (k mod 5))) (enumerate 0 (legs j))"
    by blast
  have len: "length (polylines m) = length (legs j)"
    by (simp add: m(2))
  have "map line_locations (polylines m) = map (\<lambda>(k, lg). leg_points only lg) (enumerate 0 (legs j))"
    by (simp add: m(2) comp_def case_prod_unfold)
  then have "map line_locations (polylines m) = map (leg_points only) (legs j)"
    by (simp only: map_enumerate_snd)
  with m(1) len show ?thesis by blast
qed

text \<open>
  C6. The claim wants a polyline also for a leg whose route line has no point. In detailed
  mode the second leg of this journey has no stopovers: \<^const>\<open>draw\<close> reaches
  \<^verbatim>\<open>folium.PolyLine([], ...)\<close>, the constructor raises ValueError, and the caller gets
  the exception instead of a map.
\<close>

theorem empty_route_line_raises:
  "draw changing_trip False = Inl ValueError"
  by (rule draw_raises [of changing_trip second_leg])
     (simp_all add: changing_trip_def second_leg_def)

text \<open>
  C9. In every run of \<^const>\<open>draw\<close>, in both modes, whether it returns the map or is
  ended by an exception after some legs: every marker on the map has radius 1000, the
  colour \<^verbatim>\<open>crimson\<close> and is filled, whatever the leg it belongs to. The palette colours
  go to the polylines only: every polyline has a palette colour, and \<^verbatim>\<open>crimson\<close> is
  none. (A journey without legs ends the run before there is a map.)
\<close>

theorem markers_fixed_appearance:
  "(legs j = [] \<and> draw_run j only = Inl IndexError) \<or>
   (\<exists>s r. draw_run j only = Inr (s, r) \<and>
      draw j only = (case r of None \<Rightarrow> Inr (the_map s) | Some e \<Rightarrow> Inl e) \<and>
      (\<forall>c \<in> set (circles (the_map s)). radius c = 1000 \<and> color c = ''crimson'' \<and> fill c) \<and>
      (\<forall>p \<in> set (polylines (the_map s)). color p \<in> set palette) \<and>
      ''crimson'' \<notin> set palette)"
proof (cases "legs j = []")
  case True
  then show ?thesis by (simp add: draw_run_empty)
next
  case False
  from draw_run_lists [OF False, of only] obtain s r where
    s: "draw_run j only = Inr (s, r)"
       "circles (the_map s) =
          concat (map (leg_circles only) (takeWhile (\<lambda>lg. only \<or> stopovers lg \<noteq> []) (legs j)))"
       "polylines (the_map s) =
          map (\<lambda>(k, lg). PolyLine (leg_points only lg) (palette ! (k mod 5)))
            (enumerate 0 (takeWhile (\<lambda>lg. only \<or> stopovers lg \<noteq> []) (legs j)))"
    by blast
  have d: "draw j only = (case r of None \<Rightarrow> Inr (the_map s) | Some e \<Rightarrow> Inl e)"
    by (simp add: draw_def s(1) split: option.splits)
  have c: "\<forall>c \<in> set (circles (the_map s)). radius c = 1000 \<and> color c = ''crimson'' \<and> fill c"
    by (auto simp add: s(2) leg_circles_def stopover_circle_def split: if_splits)
  have "palette ! (k mod 5) \<in> set palette" for k
    by (rule nth_mem) (simp add: palette_def)
  then have p: "\<forall>p \<in> set (polylines (the_map s)). color p \<in> set palette"
    by (auto simp add: s(3))
  have "''crimson'' \<notin> set palette"
    by (simp add: palette_def)
  with s(1) d c p show ?thesis by blast
qed

theorem markers_fixed_appearance_witness:
  "(\<exists>m. draw triple_trip True = Inr m \<and> length (circles m) = 6 \<and>
      list_all (\<lambda>c. radius c = 1000 \<and> color c = ''crimson'' \<and> fill c) (circles m) \<and>
      list_all (\<lambda>p. color p \<in> set palette) (polylines m)) \<and>
   (\<exists>s. draw_run triple_trip False = Inr (s, Some ValueError) \<and>
      length (circles (the_map s)) = 3 \<and>
      list_all (\<lambda>c. radius c = 1000 \<and> color c = ''crimson'' \<and> fill c) (circles (the_map s)))"
proof -
  have ne: "legs triple_trip \<noteq> []" by (simp add: triple_trip_def)
  have ok: "True \<or> (\<forall>lg \<in> set (legs triple_trip). stopovers lg \<noteq> [])" by simp
  from draw_returns [OF ne ok] obtain m where
    m: "draw triple_trip True = Inr m"
       "circles m = concat (map (leg_circles True) (legs triple_trip))"
    by blast
  from m(2) have lm: "length (circles m) = 6"
    by (simp add: triple_trip_def leg_circles_def)
  from draw_run_lists [OF ne, of False] obtain s where
    s: "draw_run triple_trip False = Inr (s, Some ValueError)"
       "circles (the_map s) = concat (map (leg_circles False)
          (takeWhile (\<lambda>lg. False \<or> stopovers lg \<noteq> []) (legs triple_trip)))"
    by (auto simp add: triple_trip_def second_leg_def)
  from s(2) have ls: "length (circles (the_map s)) = 3"
    by (simp add: triple_trip_def leg_circles_def first_leg_def second_leg_def)
  have a: "\<exists>m. draw triple_trip True = Inr m \<and> length (circles m) = 6 \<and>
      list_all (\<lambda>c. radius c = 1000 \<and> color c = ''crimson'' \<and> fill c) (circles m) \<and>
      list_all (\<lambda>p. color p \<in> set palette) (polylines m)"
    using markers_fixed_appearance [of triple_trip True] m(1) lm ne
    by (auto simp add: list_all_iff split: option.splits)
  have b: "\<exists>s. draw_run triple_trip False = Inr (s, Some ValueError) \<and>
      length (circles (the_map s)) = 3 \<and>
      list_all (\<lambda>c. radius c = 1000 \<and> color c = ''crimson'' \<and> fill c) (circles (the_map s))"
    using markers_fixed_appearance [of triple_trip False] s(1) ls ne
    by (auto simp add: list_all_iff)
  from a b show ?thesis by blast
qed

text \<open>
  C10. Rendering leaves the journey as it was, in every run: either the first statement
  raises on a journey without legs, before anything is written, or the run ends, by
  \<^verbatim>\<open>return\<close> or by an exception, in a state whose journey object is the journey that
  was passed in, with its legs, stopovers, stations and times.
\<close>

theorem draw_leaves_journey:
  "(legs j = [] \<and> draw_run j only = Inl IndexError) \<or>
   (\<exists>s r. draw_run j only = Inr (s, r) \<and> journey s = j)"
proof (cases "legs j = []")
  case True
  then show ?thesis by (simp add: draw_run_empty)
next
  case False
  from draw_run_lists [OF False, of only] show ?thesis by blast
qed

theorem draw_leaves_journey_witness:
  "(\<exists>s. draw_run direct_trip False = Inr (s, None) \<and> journey s = direct_trip) \<and>
   (\<exists>s. draw_run changing_trip False = Inr (s, Some ValueError) \<and> journey s = changing_trip)"
proof -
  have n1: "legs direct_trip \<noteq> []" by (simp add: direct_trip_def)
  have n2: "legs changing_trip \<noteq> []" by (simp add: changing_trip_def)
  from draw_run_lists [OF n1, of False] obtain s1 where
    s1: "draw_run direct_trip False = Inr (s1, None)"
    by (auto simp add: direct_trip_def first_leg_def)
  from draw_run_lists [OF n2, of False] obtain s2 where
    s2: "draw_run changing_trip False = Inr (s2, Some ValueError)"
    by (auto simp add: changing_trip_def second_leg_def)
  from draw_leaves_journey [of direct_trip False] s1 n1
  have a: "\<exists>s. draw_run direct_trip False = Inr (s, None) \<and> journey s = direct_trip"
    by auto
  from draw_leaves_journey [of changing_trip False] s2 n2
  have b: "\<exists>s. draw_run changing_trip False = Inr (s, Some ValueError) \<and> journey s = changing_trip"
    by auto
  from a b show ?thesis by blast
qed

end
